theory Spec2Isabelle
  imports Main
begin

section \<open>Python values\<close>

text \<open>
  The values that travel through the facade: identifiers, keyword arguments, document
  bodies, response headers. A dictionary is an association list with string keys, read
  with \<open>map_of\<close>; its order is the insertion order of the Python dict.
\<close>

datatype pyval =
    PNone
  | PBool bool
  | PInt int
  | PStr string
  | PList "pyval list"
  | PDict "(string \<times> pyval) list"

type_synonym doc = "(string \<times> pyval) list"

text \<open>
  The exceptions of the two modules. \<open>HTTPFailure\<close> is the transport's failure and
  carries the status code; \<open>TransportError\<close> is any other exception the transport raises
  (it is not an \<open>HTTPFailure\<close>, so \<open>except HTTPFailure\<close> does not catch it).
\<close>

datatype error =
    HTTPFailure int string
  | KeyError string
  | TypeError
  | ValueError
  | TransportError string

text \<open>Truthiness, as \<open>x or y\<close> and \<open>if x\<close> test it.\<close>

fun py_truthy :: "pyval \<Rightarrow> bool" where
  "py_truthy PNone = False"
| "py_truthy (PBool b) = b"
| "py_truthy (PInt n) = (n \<noteq> 0)"
| "py_truthy (PStr s) = (s \<noteq> [])"
| "py_truthy (PList xs) = (xs \<noteq> [])"
| "py_truthy (PDict d) = (d \<noteq> [])"

text \<open>
  The builtin \<open>int(x)\<close>: \<open>int(None)\<close>, \<open>int([])\<close> and \<open>int({})\<close> raise TypeError,
  a bool is 0 or 1, a string is read as a decimal literal (surrounding whitespace, an
  optional sign, digits with single underscores between them) and raises ValueError
  otherwise. Strings are ASCII here, and the whitespace of \<open>int\<close> on an ASCII string is
  the space and the characters 0x09 to 0x0D.
\<close>

definition is_space :: "char \<Rightarrow> bool" where
  "is_space c = (c \<in> set [CHR 0x20, CHR 0x09, CHR 0x0A, CHR 0x0B, CHR 0x0C, CHR 0x0D])"

definition is_digit :: "char \<Rightarrow> bool" where
  "is_digit c = (c \<in> set ''0123456789'')"

definition digit_value :: "char \<Rightarrow> int" where
  "digit_value c = int (of_char c) - 48"

fun dec_body :: "string \<Rightarrow> int \<Rightarrow> int option" where
  "dec_body [] acc = Some acc"
| "dec_body [c] acc = (if is_digit c then Some (acc * 10 + digit_value c) else None)"
| "dec_body (c # d # cs) acc =
     (if is_digit c then dec_body (d # cs) (acc * 10 + digit_value c)
      else if c = CHR ''_'' \<and> is_digit d then dec_body cs (acc * 10 + digit_value d)
      else None)"

definition dec_digits :: "string \<Rightarrow> int option" where
  "dec_digits t =
     (case t of
        [] \<Rightarrow> None
      | c # cs \<Rightarrow> if is_digit c then dec_body cs (digit_value c) else None)"

definition int_of_decimal :: "string \<Rightarrow> int option" where
  "int_of_decimal s =
     (let t = rev (dropWhile is_space (rev (dropWhile is_space s)))
      in case t of
           [] \<Rightarrow> None
         | c # cs \<Rightarrow>
             if c = CHR ''-'' then map_option uminus (dec_digits cs)
             else if c = CHR ''+'' then dec_digits cs
             else dec_digits t)"

fun py_int :: "pyval \<Rightarrow> error + int" where
  "py_int PNone = Inl TypeError"
| "py_int (PBool b) = Inr (if b then 1 else 0)"
| "py_int (PInt n) = Inr n"
| "py_int (PStr s) = (case int_of_decimal s of None \<Rightarrow> Inl ValueError | Some n \<Rightarrow> Inr n)"
| "py_int (PList xs) = Inl TypeError"
| "py_int (PDict d) = Inl TypeError"

section \<open>The transport context\<close>

text \<open>
  A properties dictionary as the transport returns it for a database or a container. The
  entry under the key \<open>id\<close> is kept apart from the other entries: the ids of the remote
  service are strings (the constructors of the handles are annotated \<open>id: str\<close>), and
  \<open>prop_id = None\<close> is a dictionary without that key, where \<open>result["id"]\<close> raises
  KeyError.
\<close>

record properties =
  prop_id :: "string option"
  prop_fields :: doc

text \<open>
  The transport context (\<open>_CosmosClient\<close>) is an external library. It is a parameter of
  the model: one function for each operation the facade calls, over a state \<open>'s\<close> of the
  transport and the remote service that the model does not look into. Every operation
  returns its result or the exception it raises, and the next state.
  \<open>last_response_headers\<close> reads the headers of the last response.
\<close>

record 's client_context =
  CreateDatabase :: "doc \<Rightarrow> 's \<Rightarrow> (error + properties) \<times> 's"
  ReadDatabase :: "string \<Rightarrow> 's \<Rightarrow> (error + properties) \<times> 's"
  DeleteDatabase :: "string \<Rightarrow> 's \<Rightarrow> (error + pyval) \<times> 's"
  ReadContainer :: "string \<Rightarrow> 's \<Rightarrow> (error + properties) \<times> 's"
  ReadContainers :: "string \<Rightarrow> 's \<Rightarrow> (error + properties list) \<times> 's"
  ReplaceContainer :: "string \<Rightarrow> doc \<Rightarrow> 's \<Rightarrow> (error + properties) \<times> 's"
  DeleteContainer :: "string \<Rightarrow> 's \<Rightarrow> (error + pyval) \<times> 's"
  ReadItem :: "string \<Rightarrow> 's \<Rightarrow> (error + doc) \<times> 's"
  ReadItems :: "string \<Rightarrow> pyval \<Rightarrow> 's \<Rightarrow> (error + doc list) \<times> 's"
  ReplaceItem :: "pyval \<Rightarrow> doc \<Rightarrow> 's \<Rightarrow> (error + doc) \<times> 's"
  DeleteItem :: "pyval \<Rightarrow> 's \<Rightarrow> (error + pyval) \<times> 's"
  last_response_headers :: "'s \<Rightarrow> doc"

section \<open>azure/cosmos/client.py\<close>

subsection \<open>Database handles and Client\<close>

text \<open>
  \<open>Database\<close> and its subclass \<open>DatabaseResponse\<close>: \<open>db_properties\<close> is None for
  the former and the properties given to the constructor for the latter.
\<close>

record database =
  db_id :: string
  database_link :: string
  db_properties :: "properties option"

definition Database_init :: "string \<Rightarrow> database" where
  "Database_init i = \<lparr>db_id = i, database_link = ''/dbs/'' @ i, db_properties = None\<rparr>"

definition DatabaseResponse :: "string \<Rightarrow> properties \<Rightarrow> database" where
  "DatabaseResponse i p = (Database_init i)\<lparr>db_properties := Some p\<rparr>"

definition get_database ::
  "'s client_context \<Rightarrow> string \<Rightarrow> 's \<Rightarrow> (error + database) \<times> 's" where
  "get_database ctx i s =
     (case ReadDatabase ctx (''dbs/'' @ i) s of
        (Inl e, s') \<Rightarrow> (Inl e, s')
      | (Inr p, s') \<Rightarrow> (Inr (DatabaseResponse i p), s'))"

text \<open>
  \<open>create_database\<close>: the \<open>try\<close> body is the remote create and the construction of
  the handle from \<open>result["id"]\<close>; only an \<open>HTTPFailure\<close> is caught, and it is raised
  again only when \<open>fail_if_exists\<close> is set and the status code is 409. After any other
  caught failure control reaches \<open>return self.get_database(id)\<close>.
\<close>

definition create_database ::
  "'s client_context \<Rightarrow> string \<Rightarrow> bool \<Rightarrow> 's \<Rightarrow> (error + database) \<times> 's" where
  "create_database ctx i fail_if_exists s =
     (case CreateDatabase ctx [(''id'', PStr i)] s of
        (Inr result, s') \<Rightarrow>
          (case prop_id result of
             None \<Rightarrow> (Inl (KeyError ''id''), s')
           | Some rid \<Rightarrow> (Inr (DatabaseResponse rid result), s'))
      | (Inl e, s') \<Rightarrow>
          (case e of
             HTTPFailure status_code msg \<Rightarrow>
               if fail_if_exists \<and> status_code = 409 then (Inl e, s')
               else get_database ctx i s'
           | _ \<Rightarrow> (Inl e, s')))"

definition delete_database ::
  "'s client_context \<Rightarrow> string \<Rightarrow> 's \<Rightarrow> (error + unit) \<times> 's" where
  "delete_database ctx i s =
     (case DeleteDatabase ctx (''dbs/'' @ i) s of
        (Inl e, s') \<Rightarrow> (Inl e, s')
      | (Inr r, s') \<Rightarrow> (Inr (), s'))"

text \<open>\<open>get_database_properties\<close> passes its argument to the transport as it is.\<close>

definition get_database_properties ::
  "'s client_context \<Rightarrow> string \<Rightarrow> 's \<Rightarrow> (error + properties) \<times> 's" where
  "get_database_properties ctx i s = ReadDatabase ctx i s"

subsection \<open>Containers and items\<close>

text \<open>
  \<open>Container\<close> and its subclass \<open>ContainerResponse\<close>. The constructor takes the
  owning database as a handle or as a name: \<open>getattr(database, "database_link",
  f"dbs/{database}")\<close>.
\<close>

record container =
  container_id :: string
  collection_link :: string
  session_token :: pyval
  container_properties :: "properties option"

datatype database_or_name = DbHandle database | DbName string

definition Container_init :: "database_or_name \<Rightarrow> string \<Rightarrow> container" where
  "Container_init db i =
     (let dblink = (case db of DbHandle d \<Rightarrow> database_link d | DbName n \<Rightarrow> ''dbs/'' @ n)
      in \<lparr>container_id = i, collection_link = dblink @ ''/colls/'' @ i,
          session_token = PNone, container_properties = None\<rparr>)"

definition ContainerResponse :: "database_or_name \<Rightarrow> string \<Rightarrow> properties \<Rightarrow> container" where
  "ContainerResponse db i p = (Container_init db i)\<lparr>container_properties := Some p\<rparr>"

text \<open>\<open>Item\<close>: a dict of the document's fields, tagged with the response headers.\<close>

record item =
  response_headers :: doc
  item_fields :: doc

definition Item :: "doc \<Rightarrow> doc \<Rightarrow> item" where
  "Item hdrs data = \<lparr>response_headers = hdrs, item_fields = data\<rparr>"

text \<open>The argument of \<open>replace_item\<close> and \<open>delete_item\<close>: \<open>Union[Item, str]\<close>.\<close>

datatype item_or_link = ByLink string | ByItem item

definition document_link :: "item_or_link \<Rightarrow> error + pyval" where
  "document_link item_or_link =
     (case item_or_link of
        ByLink l \<Rightarrow> Inr (PStr l)
      | ByItem it \<Rightarrow>
          (case map_of (item_fields it) ''_self'' of
             None \<Rightarrow> Inl (KeyError ''_self'')
           | Some v \<Rightarrow> Inr v))"

text \<open>
  The methods of \<open>Container\<close> return, besides the result and the transport's state, the
  container as the call leaves it: \<open>get_item\<close> assigns \<open>self.session_token\<close>.
  \<open>list_items\<close> is a generator; the model is the call consumed to its end.
\<close>

definition get_item ::
  "'s client_context \<Rightarrow> container \<Rightarrow> string \<Rightarrow> 's \<Rightarrow> (error + item) \<times> container \<times> 's" where
  "get_item ctx c i s =
     (let doc_link = collection_link c @ ''/docs/'' @ i
      in case ReadItem ctx doc_link s of
           (Inl e, s') \<Rightarrow> (Inl e, c, s')
         | (Inr result, s') \<Rightarrow>
             (let hdrs = last_response_headers ctx s';
                  c' = c\<lparr>session_token :=
                         (case map_of hdrs ''x-ms-session-token'' of
                            None \<Rightarrow> session_token c
                          | Some v \<Rightarrow> v)\<rparr>
              in (Inr (Item hdrs result), c', s')))"

definition list_items ::
  "'s client_context \<Rightarrow> container \<Rightarrow> pyval \<Rightarrow> 's \<Rightarrow> (error + item list) \<times> container \<times> 's" where
  "list_items ctx c options s =
     (let options' = (if py_truthy options then options else PDict [])
      in case ReadItems ctx (collection_link c) options' s of
           (Inl e, s') \<Rightarrow> (Inl e, c, s')
         | (Inr items, s') \<Rightarrow>
             (let hdrs = last_response_headers ctx s'
              in (Inr (map (Item hdrs) items), c, s')))"

definition replace_item ::
  "'s client_context \<Rightarrow> container \<Rightarrow> item_or_link \<Rightarrow> doc \<Rightarrow> 's
     \<Rightarrow> (error + item) \<times> container \<times> 's" where
  "replace_item ctx c it body s =
     (case document_link it of
        Inl e \<Rightarrow> (Inl e, c, s)
      | Inr item_link \<Rightarrow>
          (case ReplaceItem ctx item_link body s of
             (Inl e, s') \<Rightarrow> (Inl e, c, s')
           | (Inr data, s') \<Rightarrow> (Inr (Item (last_response_headers ctx s') data), c, s')))"

definition delete_item ::
  "'s client_context \<Rightarrow> container \<Rightarrow> item_or_link \<Rightarrow> 's \<Rightarrow> (error + unit) \<times> container \<times> 's" where
  "delete_item ctx c it s =
     (case document_link it of
        Inl e \<Rightarrow> (Inl e, c, s)
      | Inr link \<Rightarrow>
          (case DeleteItem ctx link s of
             (Inl e, s') \<Rightarrow> (Inl e, c, s')
           | (Inr r, s') \<Rightarrow> (Inr (), c, s')))"

subsection \<open>Database: container management\<close>

text \<open>The argument of the container operations of \<open>Database\<close>: \<open>Union[str, Container]\<close>.\<close>

datatype container_or_id = ById string | ByHandle container

definition get_container ::
  "'s client_context \<Rightarrow> database \<Rightarrow> container_or_id \<Rightarrow> 's \<Rightarrow> (error + container) \<times> 's" where
  "get_container ctx db container_or_id s =
     (let link = (case container_or_id of
                    ByHandle c \<Rightarrow> collection_link c
                  | ById i \<Rightarrow> database_link db @ ''/colls/'' @ i)
      in case ReadContainer ctx link s of
           (Inl e, s') \<Rightarrow> (Inl e, s')
         | (Inr p, s') \<Rightarrow>
             (case prop_id p of
                None \<Rightarrow> (Inl (KeyError ''id''), s')
              | Some cid \<Rightarrow> (Inr (ContainerResponse (DbHandle db) cid p), s')))"

definition delete_container ::
  "'s client_context \<Rightarrow> database \<Rightarrow> container_or_id \<Rightarrow> 's \<Rightarrow> (error + unit) \<times> 's" where
  "delete_container ctx db cont s =
     (let link = (case cont of
                    ByHandle c \<Rightarrow> collection_link c
                  | ById i \<Rightarrow> database_link db @ ''/colls/'' @ i)
      in case DeleteContainer ctx link s of
           (Inl e, s') \<Rightarrow> (Inl e, s')
         | (Inr r, s') \<Rightarrow> (Inr (), s'))"

definition get_container_properties ::
  "'s client_context \<Rightarrow> database \<Rightarrow> container_or_id \<Rightarrow> 's \<Rightarrow> (error + properties) \<times> 's" where
  "get_container_properties ctx db cont s =
     (let link = (case cont of
                    ByHandle c \<Rightarrow> collection_link c
                  | ById i \<Rightarrow> database_link db @ ''/cols/'' @ i)
      in ReadContainer ctx link s)"

text \<open>
  The dictionary comprehension of \<open>set_container_properties\<close>. The inner dictionary is
  built first, entry by entry, so \<open>int(default_ttl)\<close> is evaluated before any entry is
  filtered; then the entries whose value is None are dropped.
\<close>

definition update_parameters ::
  "pyval \<Rightarrow> pyval \<Rightarrow> pyval \<Rightarrow> pyval \<Rightarrow> pyval \<Rightarrow> error + doc" where
  "update_parameters cid partition_key indexing_policy default_ttl conflict_resolution_policy =
     (case py_int default_ttl of
        Inl e \<Rightarrow> Inl e
      | Inr ttl \<Rightarrow>
          Inr (filter (\<lambda>(key, v). v \<noteq> PNone)
                 [(''id'', cid),
                  (''partitionKey'', partition_key),
                  (''indexingPolicy'', indexing_policy),
                  (''defaultTtl'', PInt ttl),
                  (''conflictResolutionPolicy'', conflict_resolution_policy)]))"

definition set_container_properties ::
  "'s client_context \<Rightarrow> database \<Rightarrow> container_or_id \<Rightarrow> pyval \<Rightarrow> pyval \<Rightarrow> pyval \<Rightarrow> pyval
     \<Rightarrow> 's \<Rightarrow> (error + unit) \<times> 's" where
  "set_container_properties ctx db cont partition_key indexing_policy default_ttl
       conflict_resolution_policy s =
     (let cid = (case cont of ByHandle c \<Rightarrow> container_id c | ById i \<Rightarrow> i)
      in case update_parameters (PStr cid) partition_key indexing_policy default_ttl
                conflict_resolution_policy of
           Inl e \<Rightarrow> (Inl e, s)
         | Inr parameters \<Rightarrow>
             (case ReplaceContainer ctx (database_link db @ ''/colls/'' @ cid) parameters s of
                (Inl e, s') \<Rightarrow> (Inl e, s')
              | (Inr r, s') \<Rightarrow> (Inr (), s')))"

section \<open>prototype/client.py\<close>

subsection \<open>Database handles and Client\<close>

record proto_database =
  pdb_id :: string
  pdb_database_link :: string

definition proto_Database_init :: "string \<Rightarrow> proto_database" where
  "proto_Database_init i = \<lparr>pdb_id = i, pdb_database_link = ''/dbs/'' @ i\<rparr>"

text \<open>The prototype's \<open>get_database\<close> builds the handle locally, with no remote call.\<close>

definition proto_get_database ::
  "'s client_context \<Rightarrow> string \<Rightarrow> 's \<Rightarrow> (error + proto_database) \<times> 's" where
  "proto_get_database ctx i s = (Inr (proto_Database_init i), s)"

definition proto_create_database ::
  "'s client_context \<Rightarrow> string \<Rightarrow> bool \<Rightarrow> 's \<Rightarrow> (error + proto_database) \<times> 's" where
  "proto_create_database ctx i fail_if_exists s =
     (case CreateDatabase ctx [(''id'', PStr i)] s of
        (Inr result, s') \<Rightarrow>
          (case prop_id result of
             None \<Rightarrow> (Inl (KeyError ''id''), s')
           | Some rid \<Rightarrow> (Inr (proto_Database_init rid), s'))
      | (Inl e, s') \<Rightarrow>
          (case e of
             HTTPFailure status_code msg \<Rightarrow>
               if fail_if_exists \<and> status_code = 409 then (Inl e, s')
               else proto_get_database ctx i s'
           | _ \<Rightarrow> (Inl e, s')))"

definition proto_delete_database ::
  "'s client_context \<Rightarrow> string \<Rightarrow> 's \<Rightarrow> (error + unit) \<times> 's" where
  "proto_delete_database ctx i s =
     (case DeleteDatabase ctx (''dbs/'' @ i) s of
        (Inl e, s') \<Rightarrow> (Inl e, s')
      | (Inr r, s') \<Rightarrow> (Inr (), s'))"

subsection \<open>Containers and items\<close>

record proto_container =
  pc_database :: proto_database
  pc_id :: string
  pc_collection_link :: string

definition proto_Container_init :: "proto_database \<Rightarrow> string \<Rightarrow> proto_container" where
  "proto_Container_init db i =
     \<lparr>pc_database = db, pc_id = i, pc_collection_link = pdb_database_link db @ ''/colls/'' @ i\<rparr>"

record proto_item =
  pi_container :: proto_container
  pi_fields :: doc

definition proto_Item :: "proto_container \<Rightarrow> doc \<Rightarrow> proto_item" where
  "proto_Item c data = \<lparr>pi_container = c, pi_fields = data\<rparr>"

datatype proto_item_or_link = PByLink string | PByItem proto_item

text \<open>
  \<open>type(item_or_link) is "str"\<close> compares a type object with a string object by
  identity: they are never the same object, whatever the argument.
\<close>

definition type_is_str_literal :: "proto_item_or_link \<Rightarrow> bool" where
  "type_is_str_literal x = False"

text \<open>
  In the other branch the argument is subscripted with \<open>"_self"\<close>: on a dict that is the
  lookup of the key, on a string it raises TypeError (string indices must be integers).
\<close>

definition proto_document_link :: "proto_item_or_link \<Rightarrow> error + pyval" where
  "proto_document_link item_or_link =
     (if type_is_str_literal item_or_link then
        (case item_or_link of PByLink l \<Rightarrow> Inr (PStr l) | PByItem it \<Rightarrow> Inl TypeError)
      else
        (case item_or_link of
           PByLink l \<Rightarrow> Inl TypeError
         | PByItem it \<Rightarrow>
             (case map_of (pi_fields it) ''_self'' of
                None \<Rightarrow> Inl (KeyError ''_self'')
              | Some v \<Rightarrow> Inr v)))"

definition proto_get_item ::
  "'s client_context \<Rightarrow> proto_container \<Rightarrow> string \<Rightarrow> 's \<Rightarrow> (error + proto_item) \<times> 's" where
  "proto_get_item ctx c i s =
     (let doc_link = pc_collection_link c @ ''/docs/'' @ i
      in case ReadItem ctx doc_link s of
           (Inl e, s') \<Rightarrow> (Inl e, s')
         | (Inr result, s') \<Rightarrow> (Inr (proto_Item c result), s'))"

definition proto_replace_item ::
  "'s client_context \<Rightarrow> proto_container \<Rightarrow> proto_item_or_link \<Rightarrow> doc \<Rightarrow> 's
     \<Rightarrow> (error + proto_item) \<times> 's" where
  "proto_replace_item ctx c it body s =
     (case proto_document_link it of
        Inl e \<Rightarrow> (Inl e, s)
      | Inr item_link \<Rightarrow>
          (case ReplaceItem ctx item_link body s of
             (Inl e, s') \<Rightarrow> (Inl e, s')
           | (Inr data, s') \<Rightarrow> (Inr (proto_Item c data), s')))"

definition proto_delete_item ::
  "'s client_context \<Rightarrow> proto_container \<Rightarrow> proto_item_or_link \<Rightarrow> 's \<Rightarrow> (error + unit) \<times> 's" where
  "proto_delete_item ctx c it s =
     (case proto_document_link it of
        Inl e \<Rightarrow> (Inl e, s)
      | Inr link \<Rightarrow>
          (case DeleteItem ctx link s of
             (Inl e, s') \<Rightarrow> (Inl e, s')
           | (Inr r, s') \<Rightarrow> (Inr (), s')))"

text \<open>
  The prototype's \<open>set_container_properties\<close> is a method of the container; the id of
  the payload is \<open>id or self.id\<close>, and the filter is \<open>value != None\<close>.
\<close>

definition proto_update_parameters ::
  "proto_container \<Rightarrow> pyval \<Rightarrow> pyval \<Rightarrow> pyval \<Rightarrow> pyval \<Rightarrow> pyval \<Rightarrow> error + doc" where
  "proto_update_parameters c new_id partition_key indexing_policy default_ttl
       conflict_resolution_policy =
     (case py_int default_ttl of
        Inl e \<Rightarrow> Inl e
      | Inr ttl \<Rightarrow>
          Inr (filter (\<lambda>(key, v). v \<noteq> PNone)
                 [(''id'', if py_truthy new_id then new_id else PStr (pc_id c)),
                  (''partitionKey'', partition_key),
                  (''indexingPolicy'', indexing_policy),
                  (''defaultTtl'', PInt ttl),
                  (''conflictResolutionPolicy'', conflict_resolution_policy)]))"

definition proto_set_container_properties ::
  "'s client_context \<Rightarrow> proto_container \<Rightarrow> pyval \<Rightarrow> pyval \<Rightarrow> pyval \<Rightarrow> pyval \<Rightarrow> pyval
     \<Rightarrow> 's \<Rightarrow> (error + unit) \<times> 's" where
  "proto_set_container_properties ctx c new_id partition_key indexing_policy default_ttl
       conflict_resolution_policy s =
     (case proto_update_parameters c new_id partition_key indexing_policy default_ttl
             conflict_resolution_policy of
        Inl e \<Rightarrow> (Inl e, s)
      | Inr parameters \<Rightarrow>
          (case ReplaceContainer ctx (pc_collection_link c) parameters s of
             (Inl e, s') \<Rightarrow> (Inl e, s')
           | (Inr r, s') \<Rightarrow> (Inr (), s')))"

subsection \<open>ContainersManagementMixin\<close>

text \<open>
  \<open>list_containers\<close> is a generator over a list comprehension: at the first
  \<open>next\<close> it reads the containers of the database and builds a handle from the
  \<open>"id"\<close> of every one of them (KeyError at the first without it), then yields them in
  order. Its \<open>query\<close> parameter is not used in its body.
\<close>

fun collect :: "('a \<Rightarrow> error + 'b) \<Rightarrow> 'a list \<Rightarrow> error + 'b list" where
  "collect f [] = Inr []"
| "collect f (x # xs) =
     (case f x of
        Inl e \<Rightarrow> Inl e
      | Inr y \<Rightarrow> (case collect f xs of Inl e \<Rightarrow> Inl e | Inr ys \<Rightarrow> Inr (y # ys)))"

definition proto_list_containers ::
  "'s client_context \<Rightarrow> proto_database \<Rightarrow> pyval \<Rightarrow> 's \<Rightarrow> (error + proto_container list) \<times> 's" where
  "proto_list_containers ctx db query s =
     (case ReadContainers ctx (pdb_database_link db) s of
        (Inl e, s') \<Rightarrow> (Inl e, s')
      | (Inr cs, s') \<Rightarrow>
          (collect (\<lambda>p. case prop_id p of
                           None \<Rightarrow> Inl (KeyError ''id'')
                         | Some i \<Rightarrow> Inr (proto_Container_init db i)) cs, s'))"

text \<open>
  \<open>get_container\<close>: \<open>next(containers)\<close> is the first handle yielded; a generator
  that yields nothing ends with StopIteration, which becomes ValueError. Any other
  exception of the generator's body passes through.
\<close>

definition container_query :: "string \<Rightarrow> pyval" where
  "container_query i =
     PDict [(''query'', PStr ''SELECT * FROM root r WHERE r.id = @container''),
            (''parameters'', PList [PDict [(''name'', PStr ''@container''), (''value'', PStr i)]])]"

definition proto_get_container ::
  "'s client_context \<Rightarrow> proto_database \<Rightarrow> string \<Rightarrow> 's \<Rightarrow> (error + proto_container) \<times> 's" where
  "proto_get_container ctx db i s =
     (case proto_list_containers ctx db (container_query i) s of
        (Inl e, s') \<Rightarrow> (Inl e, s')
      | (Inr [], s') \<Rightarrow> (Inl ValueError, s')
      | (Inr (c # cs), s') \<Rightarrow> (Inr c, s'))"

section \<open>Observing the transport\<close>

text \<open>
  Which link an operation addresses is what it passes to the transport. \<open>traced ctx\<close>
  behaves as \<open>ctx\<close> does and writes down every call, with its arguments, in the order
  the calls are made.
\<close>

datatype call = Call string "pyval list"

definition record_call ::
  "string \<Rightarrow> pyval list \<Rightarrow> ('s \<Rightarrow> 'r \<times> 's) \<Rightarrow> 's \<times> call list \<Rightarrow> 'r \<times> 's \<times> call list" where
  "record_call name args f st =
     (case st of (s, calls) \<Rightarrow>
        (case f s of (r, s') \<Rightarrow> (r, s', calls @ [Call name args])))"

definition traced :: "'s client_context \<Rightarrow> ('s \<times> call list) client_context" where
  "traced ctx =
     \<lparr>CreateDatabase = (\<lambda>d. record_call ''CreateDatabase'' [PDict d] (CreateDatabase ctx d)),
      ReadDatabase = (\<lambda>l. record_call ''ReadDatabase'' [PStr l] (ReadDatabase ctx l)),
      DeleteDatabase = (\<lambda>l. record_call ''DeleteDatabase'' [PStr l] (DeleteDatabase ctx l)),
      ReadContainer = (\<lambda>l. record_call ''ReadContainer'' [PStr l] (ReadContainer ctx l)),
      ReadContainers = (\<lambda>l. record_call ''ReadContainers'' [PStr l] (ReadContainers ctx l)),
      ReplaceContainer =
        (\<lambda>l d. record_call ''ReplaceContainer'' [PStr l, PDict d] (ReplaceContainer ctx l d)),
      DeleteContainer = (\<lambda>l. record_call ''DeleteContainer'' [PStr l] (DeleteContainer ctx l)),
      ReadItem = (\<lambda>l. record_call ''ReadItem'' [PStr l] (ReadItem ctx l)),
      ReadItems = (\<lambda>l opts. record_call ''ReadItems'' [PStr l, opts] (ReadItems ctx l opts)),
      ReplaceItem = (\<lambda>l d. record_call ''ReplaceItem'' [l, PDict d] (ReplaceItem ctx l d)),
      DeleteItem = (\<lambda>l. record_call ''DeleteItem'' [l] (DeleteItem ctx l)),
      last_response_headers = (\<lambda>st. last_response_headers ctx (fst st))\<rparr>"

definition calls_of :: "'r \<times> 's \<times> call list \<Rightarrow> call list" where
  "calls_of out = snd (snd out)"

definition calls_of3 :: "'r \<times> 'c \<times> 's \<times> call list \<Rightarrow> call list" where
  "calls_of3 out = snd (snd (snd out))"

text \<open>
  A small in-memory service to run the operations on: the ids of the databases that
  exist, the containers every database lists, the documents by link, and the headers it
  answers each request with. It answers 409 to the creation of a database that exists,
  400 to an empty id and 404 to a link that names nothing.
\<close>

record remote =
  remote_databases :: "string list"
  remote_containers :: "properties list"
  remote_documents :: "(string \<times> doc) list"
  remote_headers :: doc

definition not_found :: error where
  "not_found = HTTPFailure 404 ''Not Found''"

definition fake :: "remote client_context" where
  "fake =
     \<lparr>CreateDatabase = (\<lambda>d s.
        case map_of d ''id'' of
          Some (PStr i) \<Rightarrow>
            if i = [] then (Inl (HTTPFailure 400 ''Bad Request''), s)
            else if i \<in> set (remote_databases s) then (Inl (HTTPFailure 409 ''Conflict''), s)
            else (Inr \<lparr>prop_id = Some i, prop_fields = []\<rparr>,
                  s\<lparr>remote_databases := remote_databases s @ [i]\<rparr>)
        | _ \<Rightarrow> (Inl (HTTPFailure 400 ''Bad Request''), s)),
      ReadDatabase = (\<lambda>l s.
        case filter (\<lambda>i. ''dbs/'' @ i = l) (remote_databases s) of
          [] \<Rightarrow> (Inl not_found, s)
        | i # _ \<Rightarrow> (Inr \<lparr>prop_id = Some i, prop_fields = []\<rparr>, s)),
      DeleteDatabase = (\<lambda>l s.
        if l \<in> set (map (\<lambda>i. ''dbs/'' @ i) (remote_databases s))
        then (Inr PNone, s\<lparr>remote_databases := filter (\<lambda>i. ''dbs/'' @ i \<noteq> l) (remote_databases s)\<rparr>)
        else (Inl not_found, s)),
      ReadContainer = (\<lambda>l s. (Inl not_found, s)),
      ReadContainers = (\<lambda>l s. (Inr (remote_containers s), s)),
      ReplaceContainer = (\<lambda>l d s. (Inr \<lparr>prop_id = None, prop_fields = d\<rparr>, s)),
      DeleteContainer = (\<lambda>l s. (Inr PNone, s)),
      ReadItem = (\<lambda>l s.
        case map_of (remote_documents s) l of
          None \<Rightarrow> (Inl not_found, s)
        | Some d \<Rightarrow> (Inr d, s)),
      ReadItems = (\<lambda>l opts s. (Inr (map snd (remote_documents s)), s)),
      ReplaceItem = (\<lambda>l d s. (Inr d, s)),
      DeleteItem = (\<lambda>l s. (Inr PNone, s)),
      last_response_headers = remote_headers\<rparr>"

definition remote0 :: remote where
  "remote0 =
     \<lparr>remote_databases = [''d''],
      remote_containers =
        [\<lparr>prop_id = Some ''a'', prop_fields = []\<rparr>, \<lparr>prop_id = Some ''b'', prop_fields = []\<rparr>],
      remote_documents = [(''/dbs/d/colls/c/docs/x'', [(''id'', PStr ''x'')])],
      remote_headers = [(''x-ms-session-token'', PStr ''0:42'')]\<rparr>"

definition container0 :: container where
  "container0 = Container_init (DbHandle (Database_init ''d'')) ''c''"

section \<open>Properties\<close>

lemma record_call_apply:
  "record_call name args f (s, calls) = (fst (f s), snd (f s), calls @ [Call name args])"
  by (simp add: record_call_def split: prod.splits)

lemmas traced_simps = traced_def calls_of_def calls_of3_def record_call_apply

subsection \<open>Client: databases\<close>

text \<open>
  C1. When the remote create fails with the conflict status 409, \<open>create_database\<close> with
  \<open>fail_if_exists=True\<close> raises that failure; with \<open>fail_if_exists=False\<close> it is
  \<open>get_database(id)\<close>, which, the database being there to be read, returns a handle with
  that id (the prototype builds the handle without a remote call).
\<close>

theorem create_database_conflict:
  assumes conflict: "CreateDatabase ctx [(''id'', PStr i)] s = (Inl (HTTPFailure 409 msg), s1)"
      and existing: "ReadDatabase ctx (''dbs/'' @ i) s1 = (Inr p, s2)"
  shows "create_database ctx i True s = (Inl (HTTPFailure 409 msg), s1) \<and>
         create_database ctx i False s = get_database ctx i s1 \<and>
         get_database ctx i s1 = (Inr (DatabaseResponse i p), s2) \<and>
         db_id (DatabaseResponse i p) = i \<and>
         proto_create_database ctx i True s = (Inl (HTTPFailure 409 msg), s1) \<and>
         proto_create_database ctx i False s = proto_get_database ctx i s1 \<and>
         proto_get_database ctx i s1 = (Inr (proto_Database_init i), s1) \<and>
         pdb_id (proto_Database_init i) = i"
  using assms
  by (simp add: create_database_def proto_create_database_def get_database_def
      proto_get_database_def DatabaseResponse_def Database_init_def proto_Database_init_def)

theorem create_database_conflict_witness:
  "CreateDatabase fake [(''id'', PStr ''d'')] remote0 = (Inl (HTTPFailure 409 ''Conflict''), remote0) \<and>
   ReadDatabase fake (''dbs/'' @ ''d'') remote0 = (Inr \<lparr>prop_id = Some ''d'', prop_fields = []\<rparr>, remote0) \<and>
   create_database fake ''d'' True remote0 = (Inl (HTTPFailure 409 ''Conflict''), remote0) \<and>
   create_database fake ''d'' False remote0 =
     (Inr (DatabaseResponse ''d'' \<lparr>prop_id = Some ''d'', prop_fields = []\<rparr>), remote0) \<and>
   proto_create_database fake ''d'' True remote0 = (Inl (HTTPFailure 409 ''Conflict''), remote0) \<and>
   proto_create_database fake ''d'' False remote0 = (Inr (proto_Database_init ''d''), remote0)"
proof -
  have h1: "CreateDatabase fake [(''id'', PStr ''d'')] remote0 = (Inl (HTTPFailure 409 ''Conflict''), remote0)"
    by (simp add: fake_def remote0_def)
  have h2: "ReadDatabase fake (''dbs/'' @ ''d'') remote0 = (Inr \<lparr>prop_id = Some ''d'', prop_fields = []\<rparr>, remote0)"
    by (simp add: fake_def remote0_def)
  show ?thesis
    using h1 h2 create_database_conflict [OF h1 h2] by simp
qed

text \<open>
  C8. An \<open>HTTPFailure\<close> of the remote create is raised again only when
  \<open>fail_if_exists\<close> is set and its status code is 409; in every other case, also with
  \<open>fail_if_exists=True\<close>, it is dropped and the result is that of \<open>get_database(id)\<close>.
\<close>

theorem create_database_swallows:
  assumes "CreateDatabase ctx [(''id'', PStr i)] s = (Inl (HTTPFailure code msg), s')"
  shows "create_database ctx i fail_if_exists s =
           (if fail_if_exists \<and> code = 409 then (Inl (HTTPFailure code msg), s')
            else get_database ctx i s') \<and>
         proto_create_database ctx i fail_if_exists s =
           (if fail_if_exists \<and> code = 409 then (Inl (HTTPFailure code msg), s')
            else proto_get_database ctx i s')"
  using assms by (simp add: create_database_def proto_create_database_def)

theorem create_database_swallows_witness:
  "CreateDatabase fake [(''id'', PStr '''')] remote0 = (Inl (HTTPFailure 400 ''Bad Request''), remote0) \<and>
   create_database fake '''' True remote0 = get_database fake '''' remote0 \<and>
   get_database fake '''' remote0 = (Inl (HTTPFailure 404 ''Not Found''), remote0) \<and>
   proto_create_database fake '''' True remote0 = (Inr (proto_Database_init ''''), remote0)"
proof -
  have h: "CreateDatabase fake [(''id'', PStr '''')] remote0 = (Inl (HTTPFailure 400 ''Bad Request''), remote0)"
    by (simp add: fake_def)
  have g: "get_database fake '''' remote0 = (Inl (HTTPFailure 404 ''Not Found''), remote0)"
    by (simp add: get_database_def fake_def remote0_def not_found_def)
  show ?thesis
    using h g create_database_swallows [OF h, of True] by (simp add: proto_get_database_def)
qed

text \<open>
  What the remote service is taken to do for \<open>create_database\<close> followed by
  \<open>get_database\<close>: a database that was created, or was read, exists afterwards, and a
  database that exists can be read. \<open>create_database\<close> returns a handle only after a
  successful remote create or, a failure of the create dropped, a successful remote read.
\<close>

lemma create_database_returned:
  assumes "create_database ctx i fail_if_exists s = (Inr h, s1)"
  shows "(\<exists>p. CreateDatabase ctx [(''id'', PStr i)] s = (Inr p, s1)) \<or>
         (\<exists>s' p. ReadDatabase ctx (''dbs/'' @ i) s' = (Inr p, s1))"
  using assms
  by (auto simp add: create_database_def get_database_def
      split: prod.splits sum.splits error.splits option.splits if_splits)

text \<open>The in-memory service is such a service, with the ids it holds.\<close>

lemma fake_created_exists:
  "CreateDatabase fake [(''id'', PStr i)] t = (Inr p, t') \<Longrightarrow> i \<in> set (remote_databases t')"
  by (auto simp add: fake_def split: if_splits)

lemma filter_Cons_member: "filter P xs = y # ys \<Longrightarrow> P y \<and> y \<in> set xs"
proof -
  assume "filter P xs = y # ys"
  then have "y \<in> set (filter P xs)" by simp
  then show ?thesis by simp
qed

lemma fake_read_exists:
  "ReadDatabase fake (''dbs/'' @ i) t = (Inr p, t') \<Longrightarrow> i \<in> set (remote_databases t')"
  by (auto simp add: fake_def split: list.splits dest: filter_Cons_member)

lemma fake_exists_read:
  "i \<in> set (remote_databases t) \<Longrightarrow> \<exists>p t'. ReadDatabase fake (''dbs/'' @ i) t = (Inr p, t')"
  by (auto simp add: fake_def filter_empty_conv split: list.splits)

lemma fake_create_then_get:
  assumes "i \<noteq> []"
  shows "\<exists>h s1 h' s2. create_database fake i False s = (Inr h, s1) \<and>
           get_database fake i s1 = (Inr h', s2) \<and> db_id h' = i"
proof (cases "i \<in> set (remote_databases s)")
  case True
  then obtain p t' where r: "ReadDatabase fake (''dbs/'' @ i) s = (Inr p, t')"
    using fake_exists_read by blast
  then have t': "t' = s" by (auto simp add: fake_def split: list.splits)
  from True assms have c: "create_database fake i False s = get_database fake i s"
    by (simp add: create_database_def fake_def)
  from r t' have g: "get_database fake i s = (Inr (DatabaseResponse i p), s)"
    by (simp add: get_database_def)
  show ?thesis using c g by (simp add: DatabaseResponse_def Database_init_def)
next
  case False
  let ?s1 = "s\<lparr>remote_databases := remote_databases s @ [i]\<rparr>"
  from False assms have c: "create_database fake i False s =
      (Inr (DatabaseResponse i \<lparr>prop_id = Some i, prop_fields = []\<rparr>), ?s1)"
    by (simp add: create_database_def fake_def)
  have "i \<in> set (remote_databases ?s1)" by simp
  then obtain p t' where r: "ReadDatabase fake (''dbs/'' @ i) ?s1 = (Inr p, t')"
    using fake_exists_read by blast
  then have g: "get_database fake i ?s1 = (Inr (DatabaseResponse i p), t')"
    by (simp add: get_database_def)
  show ?thesis using c g by (simp add: DatabaseResponse_def Database_init_def)
qed

text \<open>
  C7. Against a remote service where a database that was created or read exists
  afterwards and a database that exists can be read, once \<open>create_database(id)\<close> has
  returned, \<open>get_database(id)\<close> returns a handle whose id is the id passed in. The
  prototype's \<open>get_database\<close> makes no remote call and returns such a handle after
  whatever its \<open>create_database\<close> did.
\<close>

theorem create_then_get_database:
  fixes ctx :: "'s client_context" and existing :: "'s \<Rightarrow> string set"
  assumes created_exists:
        "\<And>t p t'. CreateDatabase ctx [(''id'', PStr i)] t = (Inr p, t') \<Longrightarrow> i \<in> existing t'"
      and read_exists:
        "\<And>t p t'. ReadDatabase ctx (''dbs/'' @ i) t = (Inr p, t') \<Longrightarrow> i \<in> existing t'"
      and exists_read:
        "\<And>t. i \<in> existing t \<Longrightarrow> \<exists>p t'. ReadDatabase ctx (''dbs/'' @ i) t = (Inr p, t')"
      and created: "create_database ctx i fail_if_exists s = (Inr h, s1)"
  shows "(\<exists>h' s2. get_database ctx i s1 = (Inr h', s2) \<and> db_id h' = i) \<and>
         (\<exists>ph. proto_get_database ctx i (snd (proto_create_database ctx i fail_if_exists s)) =
                 (Inr ph, snd (proto_create_database ctx i fail_if_exists s)) \<and> pdb_id ph = i)"
proof -
  have "i \<in> existing s1"
    using create_database_returned [OF created] created_exists read_exists by blast
  then obtain p s2 where "ReadDatabase ctx (''dbs/'' @ i) s1 = (Inr p, s2)"
    using exists_read by blast
  then have "get_database ctx i s1 = (Inr (DatabaseResponse i p), s2)"
    by (simp add: get_database_def)
  moreover have "db_id (DatabaseResponse i p) = i"
    by (simp add: DatabaseResponse_def Database_init_def)
  ultimately show ?thesis
    by (simp add: proto_get_database_def proto_Database_init_def)
qed

theorem create_then_get_database_witness:
  "create_database fake ''e'' False remote0 =
     (Inr (DatabaseResponse ''e'' \<lparr>prop_id = Some ''e'', prop_fields = []\<rparr>),
      remote0\<lparr>remote_databases := [''d'', ''e'']\<rparr>) \<and>
   (\<exists>h' s2. get_database fake ''e'' (remote0\<lparr>remote_databases := [''d'', ''e'']\<rparr>) = (Inr h', s2) \<and>
             db_id h' = ''e'') \<and>
   get_database fake ''e'' (remote0\<lparr>remote_databases := [''d'', ''e'']\<rparr>) =
     (Inr (DatabaseResponse ''e'' \<lparr>prop_id = Some ''e'', prop_fields = []\<rparr>),
      remote0\<lparr>remote_databases := [''d'', ''e'']\<rparr>) \<and>
   get_database fake ''e'' remote0 = (Inl (HTTPFailure 404 ''Not Found''), remote0)"
proof -
  have h: "create_database fake ''e'' False remote0 =
     (Inr (DatabaseResponse ''e'' \<lparr>prop_id = Some ''e'', prop_fields = []\<rparr>),
      remote0\<lparr>remote_databases := [''d'', ''e'']\<rparr>)"
    by (simp add: create_database_def fake_def remote0_def)
  have g: "get_database fake ''e'' (remote0\<lparr>remote_databases := [''d'', ''e'']\<rparr>) =
     (Inr (DatabaseResponse ''e'' \<lparr>prop_id = Some ''e'', prop_fields = []\<rparr>),
      remote0\<lparr>remote_databases := [''d'', ''e'']\<rparr>)"
    by (simp add: get_database_def fake_def remote0_def)
  have n: "get_database fake ''e'' remote0 = (Inl (HTTPFailure 404 ''Not Found''), remote0)"
    by (simp add: get_database_def fake_def remote0_def not_found_def)
  have t: "(\<exists>h' s2. get_database fake ''e'' (remote0\<lparr>remote_databases := [''d'', ''e'']\<rparr>) =
                (Inr h', s2) \<and> db_id h' = ''e'') \<and>
           (\<exists>ph. proto_get_database fake ''e'' (snd (proto_create_database fake ''e'' False remote0)) =
                (Inr ph, snd (proto_create_database fake ''e'' False remote0)) \<and> pdb_id ph = ''e'')"
  proof (rule create_then_get_database
      [where existing = "\<lambda>t. set (remote_databases t)" and fail_if_exists = False
        and s = remote0
        and h = "DatabaseResponse ''e'' \<lparr>prop_id = Some ''e'', prop_fields = []\<rparr>"])
    fix t p t'
    assume "CreateDatabase fake [(''id'', PStr ''e'')] t = (Inr p, t')"
    then show "''e'' \<in> set (remote_databases t')" by (rule fake_created_exists)
  next
    fix t p t'
    assume "ReadDatabase fake (''dbs/'' @ ''e'') t = (Inr p, t')"
    then show "''e'' \<in> set (remote_databases t')" by (rule fake_read_exists)
  next
    fix t :: remote
    assume "''e'' \<in> set (remote_databases t)"
    then show "\<exists>p t'. ReadDatabase fake (''dbs/'' @ ''e'') t = (Inr p, t')"
      by (rule fake_exists_read)
  next
    show "create_database fake ''e'' False remote0 =
       (Inr (DatabaseResponse ''e'' \<lparr>prop_id = Some ''e'', prop_fields = []\<rparr>),
        remote0\<lparr>remote_databases := [''d'', ''e'']\<rparr>)"
      by (rule h)
  qed
  show ?thesis using h g n t by blast
qed

text \<open>
  C6. A failure of the remote delete is the outcome of \<open>delete_database\<close>, as it is and
  in the state the transport left; the transport is called once, on \<open>dbs/{id}\<close>.
\<close>

theorem delete_database_propagates:
  assumes "DeleteDatabase ctx (''dbs/'' @ i) s = (Inl e, s')"
  shows "delete_database ctx i s = (Inl e, s') \<and>
         proto_delete_database ctx i s = (Inl e, s') \<and>
         calls_of (delete_database (traced ctx) i (s, [])) =
           [Call ''DeleteDatabase'' [PStr (''dbs/'' @ i)]] \<and>
         calls_of (proto_delete_database (traced ctx) i (s, [])) =
           [Call ''DeleteDatabase'' [PStr (''dbs/'' @ i)]]"
  using assms
  by (simp add: delete_database_def proto_delete_database_def traced_simps)

theorem delete_database_propagates_witness:
  "DeleteDatabase fake (''dbs/'' @ ''nope'') remote0 = (Inl (HTTPFailure 404 ''Not Found''), remote0) \<and>
   delete_database fake ''nope'' remote0 = (Inl (HTTPFailure 404 ''Not Found''), remote0) \<and>
   proto_delete_database fake ''nope'' remote0 = (Inl (HTTPFailure 404 ''Not Found''), remote0)"
proof -
  have h: "DeleteDatabase fake (''dbs/'' @ ''nope'') remote0 =
             (Inl (HTTPFailure 404 ''Not Found''), remote0)"
    by (simp add: fake_def remote0_def not_found_def)
  show ?thesis
    using h delete_database_propagates [OF h] by simp
qed

subsection \<open>Container: the session token\<close>

text \<open>
  C9. When the headers of the response to \<open>get_item\<close> have no \<open>x-ms-session-token\<close>
  entry, the container is as it was before the call: its session token keeps its value.
\<close>

theorem get_item_without_token_header:
  assumes "map_of (last_response_headers ctx (snd (ReadItem ctx (collection_link c @ ''/docs/'' @ i) s)))
             ''x-ms-session-token'' = None"
  shows "fst (snd (get_item ctx c i s)) = c"
proof (cases "ReadItem ctx (collection_link c @ ''/docs/'' @ i) s")
  case (Pair r s')
  with assms show ?thesis
    by (cases r) (simp_all add: get_item_def Let_def)
qed

theorem get_item_without_token_header_witness:
  "map_of (last_response_headers fake
      (snd (ReadItem fake (collection_link (container0\<lparr>session_token := PStr ''0:41''\<rparr>) @ ''/docs/'' @ ''x'')
              (remote0\<lparr>remote_headers := [(''etag'', PStr ''7'')]\<rparr>)))) ''x-ms-session-token'' = None \<and>
   get_item fake (container0\<lparr>session_token := PStr ''0:41''\<rparr>) ''x''
       (remote0\<lparr>remote_headers := [(''etag'', PStr ''7'')]\<rparr>) =
     (Inr (Item [(''etag'', PStr ''7'')] [(''id'', PStr ''x'')]),
      container0\<lparr>session_token := PStr ''0:41''\<rparr>,
      remote0\<lparr>remote_headers := [(''etag'', PStr ''7'')]\<rparr>) \<and>
   session_token (fst (snd (get_item fake (container0\<lparr>session_token := PStr ''0:41''\<rparr>) ''x''
       (remote0\<lparr>remote_headers := [(''etag'', PStr ''7'')]\<rparr>)))) = PStr ''0:41''"
proof -
  have h: "map_of (last_response_headers fake
      (snd (ReadItem fake (collection_link (container0\<lparr>session_token := PStr ''0:41''\<rparr>) @ ''/docs/'' @ ''x'')
              (remote0\<lparr>remote_headers := [(''etag'', PStr ''7'')]\<rparr>)))) ''x-ms-session-token'' = None"
    by (simp add: fake_def remote0_def container0_def Container_init_def Database_init_def)
  have g: "get_item fake (container0\<lparr>session_token := PStr ''0:41''\<rparr>) ''x''
       (remote0\<lparr>remote_headers := [(''etag'', PStr ''7'')]\<rparr>) =
     (Inr (Item [(''etag'', PStr ''7'')] [(''id'', PStr ''x'')]),
      container0\<lparr>session_token := PStr ''0:41''\<rparr>,
      remote0\<lparr>remote_headers := [(''etag'', PStr ''7'')]\<rparr>)"
    by (simp add: get_item_def Let_def fake_def remote0_def container0_def Container_init_def
        Database_init_def)
  show ?thesis
    using h g get_item_without_token_header [OF h] by simp
qed

text \<open>
  What \<open>get_item\<close> does with a token that is there, and what \<open>list_items\<close> does
  to the container, whatever the transport answers.
\<close>

lemma get_item_records_token:
  assumes "ReadItem ctx (collection_link c @ ''/docs/'' @ i) s = (Inr result, s')"
      and "map_of (last_response_headers ctx s') ''x-ms-session-token'' = Some tok"
  shows "session_token (fst (snd (get_item ctx c i s))) = tok"
  using assms by (simp add: get_item_def Let_def)

lemma list_items_container_unchanged:
  "fst (snd (list_items ctx c options s)) = c"
  by (simp add: list_items_def Let_def split: prod.splits sum.splits)

text \<open>
  C3. \<open>get_item\<close> records the session token of the response; \<open>list_items\<close> does
  not. On a container whose token is None, against a service that answers with the token
  \<open>0:42\<close> in its headers, \<open>list_items\<close> returns the items tagged with those headers
  and leaves the container as it was, its token still None.
\<close>

theorem list_items_leaves_session_token:
  "list_items fake container0 PNone remote0 =
     (Inr [Item [(''x-ms-session-token'', PStr ''0:42'')] [(''id'', PStr ''x'')]],
      container0, remote0) \<and>
   map_of (last_response_headers fake remote0) ''x-ms-session-token'' = Some (PStr ''0:42'') \<and>
   session_token container0 = PNone"
  by (simp add: list_items_def Let_def fake_def remote0_def container0_def Container_init_def)

subsection \<open>Container: addressing an item\<close>

text \<open>
  In the azure module \<open>replace_item\<close> and \<open>delete_item\<close> address the \<open>_self\<close> of
  an item and a bare link as it is; the prototype does the first.
\<close>

lemma document_link_of_link: "document_link (ByLink l) = Inr (PStr l)"
  by (simp add: document_link_def)

lemma document_link_of_item:
  "map_of (item_fields it) ''_self'' = Some v \<Longrightarrow> document_link (ByItem it) = Inr v"
  by (simp add: document_link_def)

lemma replace_item_addresses_self:
  "map_of (item_fields it) ''_self'' = Some v \<Longrightarrow>
     calls_of3 (replace_item (traced ctx) c (ByItem it) body (s, [])) =
       [Call ''ReplaceItem'' [v, PDict body]] \<and>
     calls_of3 (delete_item (traced ctx) c (ByItem it) (s, [])) = [Call ''DeleteItem'' [v]]"
  by (simp add: replace_item_def delete_item_def document_link_def traced_simps
      split: prod.splits sum.splits)

lemma replace_item_addresses_link:
  "calls_of3 (replace_item (traced ctx) c (ByLink l) body (s, [])) =
       [Call ''ReplaceItem'' [PStr l, PDict body]] \<and>
   calls_of3 (delete_item (traced ctx) c (ByLink l) (s, [])) = [Call ''DeleteItem'' [PStr l]]"
  by (simp add: replace_item_def delete_item_def document_link_def traced_simps
      split: prod.splits sum.splits)

lemma proto_replace_item_addresses_self:
  "map_of (pi_fields it) ''_self'' = Some v \<Longrightarrow>
     calls_of (proto_replace_item (traced ctx) c (PByItem it) body (s, [])) =
       [Call ''ReplaceItem'' [v, PDict body]] \<and>
     calls_of (proto_delete_item (traced ctx) c (PByItem it) (s, [])) = [Call ''DeleteItem'' [v]]"
  by (simp add: proto_replace_item_def proto_delete_item_def proto_document_link_def
      type_is_str_literal_def traced_simps split: prod.splits sum.splits)

text \<open>
  C4. Given a bare link string, the prototype's \<open>_document_link\<close> never takes its
  string branch and subscripts the string with \<open>"_self"\<close>: TypeError, for every link,
  and \<open>replace_item\<close> and \<open>delete_item\<close> raise it without calling the transport. The
  azure module's \<open>_document_link\<close> returns the link.
\<close>

theorem proto_document_link_of_link:
  "proto_document_link (PByLink l) = Inl TypeError \<and>
   proto_replace_item ctx c (PByLink l) body s = (Inl TypeError, s) \<and>
   proto_delete_item ctx c (PByLink l) s = (Inl TypeError, s) \<and>
   document_link (ByLink l) = Inr (PStr l)"
  by (simp add: proto_document_link_def type_is_str_literal_def proto_replace_item_def
      proto_delete_item_def document_link_def)

subsection \<open>Database: container properties\<close>

text \<open>
  With a time to live that is an integer the payload of \<open>set_container_properties\<close> is
  the id, the time to live and the other fields that are not None, in this order.
\<close>

lemma update_parameters_with_ttl:
  "update_parameters cid pk ip (PInt n) crp =
     Inr (filter (\<lambda>(key, v). v \<noteq> PNone)
            [(''id'', cid), (''partitionKey'', pk), (''indexingPolicy'', ip),
             (''defaultTtl'', PInt n), (''conflictResolutionPolicy'', crp)])"
  by (simp add: update_parameters_def)

lemma update_parameters_ttl_only:
  "update_parameters (PStr cid) PNone PNone (PInt 3600) PNone =
     Inr [(''id'', PStr cid), (''defaultTtl'', PInt 3600)]"
  by (simp add: update_parameters_def)

lemma set_container_properties_ttl_only:
  "calls_of (set_container_properties (traced ctx) db (ById i) PNone PNone (PInt 3600) PNone (s, [])) =
     [Call ''ReplaceContainer''
        [PStr (database_link db @ ''/colls/'' @ i),
         PDict [(''id'', PStr i), (''defaultTtl'', PInt 3600)]]]"
  by (simp add: set_container_properties_def update_parameters_def traced_simps
      split: prod.splits sum.splits)

lemma update_parameters_absent_iff:
  "update_parameters cid pk ip (PInt n) crp = Inr d \<Longrightarrow>
     (map_of d ''partitionKey'' = (if pk = PNone then None else Some pk)) \<and>
     (map_of d ''indexingPolicy'' = (if ip = PNone then None else Some ip)) \<and>
     (map_of d ''conflictResolutionPolicy'' = (if crp = PNone then None else Some crp)) \<and>
     map_of d ''defaultTtl'' = Some (PInt n)"
  by (auto simp add: update_parameters_def)

text \<open>
  C2. With \<open>default_ttl\<close> omitted (None), whatever the other arguments are,
  \<open>int(default_ttl)\<close> raises TypeError while the dictionary is being built: no payload
  is made and the transport is not called, in both modules.
\<close>

theorem set_container_properties_without_ttl:
  "set_container_properties ctx db cont partition_key indexing_policy PNone
       conflict_resolution_policy s = (Inl TypeError, s) \<and>
   proto_set_container_properties ctx c new_id partition_key indexing_policy PNone
       conflict_resolution_policy s = (Inl TypeError, s)"
  by (simp add: set_container_properties_def update_parameters_def
      proto_set_container_properties_def proto_update_parameters_def)

subsection \<open>Resource links\<close>

text \<open>
  C5, as stated, fails: \<open>delete_database\<close> and \<open>get_database\<close> address \<open>dbs/d\<close>,
  without the leading slash of the handle's \<open>/dbs/d\<close>, and a container built from the
  name of its database has the link \<open>dbs/d/colls/c\<close>.
\<close>

theorem resource_link_counterexample:
  "calls_of (delete_database (traced fake) ''d'' (remote0, [])) =
     [Call ''DeleteDatabase'' [PStr ''dbs/d'']] \<and>
   calls_of (get_database (traced fake) ''d'' (remote0, [])) =
     [Call ''ReadDatabase'' [PStr ''dbs/d'']] \<and>
   database_link (Database_init ''d'') = ''/dbs/d'' \<and>
   ''dbs/d'' \<noteq> ''/dbs/d'' \<and>
   collection_link (Container_init (DbName ''d'') ''c'') = ''dbs/d/colls/c'' \<and>
   ''dbs/d/colls/c'' \<noteq> database_link (Database_init ''d'') @ ''/colls/'' @ ''c''"
  by (simp add: delete_database_def get_database_def traced_simps Database_init_def
      Container_init_def split: prod.splits sum.splits)

text \<open>
  C5, amended. The link of a database handle is \<open>/dbs/{id}\<close>; \<open>get_database\<close> and
  \<open>delete_database\<close> address \<open>dbs/{id}\<close>; the link of a container is
  \<open>{database_link}/colls/{id}\<close>, where the database link is the owning handle's, or
  \<open>dbs/{name}\<close> for a database given by name; \<open>get_container\<close> and
  \<open>delete_container\<close> by id address \<open>{database_link}/colls/{id}\<close>; \<open>get_item\<close>
  addresses \<open>{collection_link}/docs/{id}\<close>. Each call reaches the transport once, with
  that link, whatever the transport answers.
\<close>

theorem resource_links_derived:
  "database_link (Database_init i) = ''/dbs/'' @ i \<and>
   database_link (DatabaseResponse i p) = ''/dbs/'' @ i \<and>
   pdb_database_link (proto_Database_init i) = ''/dbs/'' @ i \<and>
   calls_of (get_database (traced ctx) i (s, [])) = [Call ''ReadDatabase'' [PStr (''dbs/'' @ i)]] \<and>
   calls_of (delete_database (traced ctx) i (s, [])) =
     [Call ''DeleteDatabase'' [PStr (''dbs/'' @ i)]] \<and>
   calls_of (proto_delete_database (traced ctx) i (s, [])) =
     [Call ''DeleteDatabase'' [PStr (''dbs/'' @ i)]] \<and>
   collection_link (Container_init (DbHandle db) i) = database_link db @ ''/colls/'' @ i \<and>
   collection_link (Container_init (DbName n) i) = ''dbs/'' @ n @ ''/colls/'' @ i \<and>
   collection_link (ContainerResponse (DbHandle db) i p) = database_link db @ ''/colls/'' @ i \<and>
   pc_collection_link (proto_Container_init pdb i) = pdb_database_link pdb @ ''/colls/'' @ i \<and>
   calls_of (get_container (traced ctx) db (ById i) (s, [])) =
     [Call ''ReadContainer'' [PStr (database_link db @ ''/colls/'' @ i)]] \<and>
   calls_of (delete_container (traced ctx) db (ById i) (s, [])) =
     [Call ''DeleteContainer'' [PStr (database_link db @ ''/colls/'' @ i)]] \<and>
   calls_of3 (get_item (traced ctx) c i (s, [])) =
     [Call ''ReadItem'' [PStr (collection_link c @ ''/docs/'' @ i)]] \<and>
   calls_of (proto_get_item (traced ctx) pc i (s, [])) =
     [Call ''ReadItem'' [PStr (pc_collection_link pc @ ''/docs/'' @ i)]]"
  by (simp add: Database_init_def DatabaseResponse_def proto_Database_init_def
      get_database_def delete_database_def proto_delete_database_def Container_init_def
      ContainerResponse_def proto_Container_init_def get_container_def delete_container_def
      get_item_def proto_get_item_def Let_def traced_simps
      split: prod.splits sum.splits option.splits)

text \<open>
  Two operations are not among those: \<open>get_container_properties\<close> by id addresses
  \<open>{database_link}/cols/{id}\<close>, and \<open>get_database_properties\<close> addresses the id
  itself.
\<close>

lemma get_container_properties_link:
  "calls_of (get_container_properties (traced ctx) db (ById i) (s, [])) =
     [Call ''ReadContainer'' [PStr (database_link db @ ''/cols/'' @ i)]]"
  by (simp add: get_container_properties_def Let_def traced_simps)

lemma get_database_properties_link:
  "calls_of (get_database_properties (traced ctx) i (s, [])) = [Call ''ReadDatabase'' [PStr i]]"
  by (simp add: get_database_properties_def traced_simps)

subsection \<open>Prototype: get\_container\<close>

text \<open>
  The result of the prototype's \<open>get_container\<close> does not depend on the id, and it is
  ValueError when the database lists no container.
\<close>

lemma proto_get_container_any_id:
  "proto_get_container ctx db i s = proto_get_container ctx db j s"
  by (simp add: proto_get_container_def proto_list_containers_def)

lemma proto_get_container_empty:
  "ReadContainers ctx (pdb_database_link db) s = (Inr [], s') \<Longrightarrow>
     proto_get_container ctx db i s = (Inl ValueError, s')"
  by (simp add: proto_get_container_def proto_list_containers_def)

text \<open>
  C10. In a database that lists the containers \<open>a\<close> and \<open>b\<close>, the prototype's
  \<open>get_container("b")\<close> returns the handle of \<open>a\<close>, the first container listed, and
  so does \<open>get_container("zzz")\<close>, where no container has that id.
\<close>

theorem proto_get_container_first_listed:
  "proto_get_container fake (proto_Database_init ''d'') ''b'' remote0 =
     (Inr (proto_Container_init (proto_Database_init ''d'') ''a''), remote0) \<and>
   proto_get_container fake (proto_Database_init ''d'') ''zzz'' remote0 =
     (Inr (proto_Container_init (proto_Database_init ''d'') ''a''), remote0) \<and>
   map prop_id (remote_containers remote0) = [Some ''a'', Some ''b'']"
  by (simp add: proto_get_container_def proto_list_containers_def fake_def remote0_def)

end
